theory Spec2Isabelle
  imports Complex_Main "HOL-Library.Word"
begin

section \<open>JavaScript numbers and the confidence score\<close>

text \<open>
  A JavaScript number is an IEEE double: a finite value (a rational), \<open>NaN\<close> or one of
  the two infinities. The finite values are kept exact. The first element of the output
  tensor comes from a typed array (32-bit floats or integers), so its product with 100 has
  at most 31 significant bits and is exact in a double; \<open>toFixed\<close> rounds the exact
  value of its receiver, as ECMAScript defines it.
\<close>

datatype jsnum = Num rat | NaN | PosInf | NegInf

text \<open>\<open>x * 100\<close> on a number.\<close>

fun times100 :: "jsnum \<Rightarrow> jsnum" where
  "times100 (Num q) = Num (q * 100)"
| "times100 NaN = NaN"
| "times100 PosInf = PosInf"
| "times100 NegInf = NegInf"

text \<open>
  \<open>prediction.dataSync()[0] * 100\<close>: element 0 of the typed array; on an empty array
  the element is \<open>undefined\<close> and the product is \<open>NaN\<close>.
\<close>

definition first_times100 :: "jsnum list \<Rightarrow> jsnum" where
  "first_times100 vs = (case vs of [] \<Rightarrow> NaN | x # _ \<Rightarrow> times100 x)"

text \<open>
  The string returned by \<open>toFixed(2)\<close>: either a sign and a count of hundredths
  (\<open>Digits True 1234\<close> is the text \<open>-12.34\<close>), or, for a receiver that is not finite
  or whose magnitude reaches \<open>10^21\<close>, the plain \<open>ToString\<close> of the number.
\<close>

datatype numstr = Digits bool nat | Plain jsnum

text \<open>
  \<open>Number.prototype.toFixed\<close> with two fraction digits: a negative receiver is negated
  and signed; below \<open>10^21\<close> the digits are the integer \<open>n\<close> with \<open>n / 100\<close> closest to
  the magnitude, the larger \<open>n\<close> on a tie.
\<close>

fun toFixed2 :: "jsnum \<Rightarrow> numstr" where
  "toFixed2 (Num q) =
     (if 10 ^ 21 \<le> \<bar>q\<bar> then Plain (Num q)
      else Digits (q < 0) (nat \<lfloor>\<bar>q\<bar> * 100 + 1 / 2\<rfloor>))"
| "toFixed2 NaN = Plain NaN"
| "toFixed2 PosInf = Plain PosInf"
| "toFixed2 NegInf = Plain NegInf"

text \<open>
  \<open>parseFloat\<close> of such a string: the number the text denotes. (The double nearest to
  a decimal is taken to be the decimal itself: rounding to nearest is monotone and 50 is
  a double, so the comparison with 50 below is not affected.)
\<close>

fun parseFloat :: "numstr \<Rightarrow> jsnum" where
  "parseFloat (Digits neg n) = Num ((if neg then - 1 else 1) * (of_nat n / 100))"
| "parseFloat (Plain x) = x"

text \<open>\<open>const predictionValue = (prediction.dataSync()[0] * 100).toFixed(2)\<close>\<close>

definition predictionValue :: "jsnum list \<Rightarrow> numstr" where
  "predictionValue vs = toFixed2 (first_times100 vs)"

text \<open>The confidence score the interpreter reads: \<open>parseFloat(predictionValue)\<close>.\<close>

definition confidence :: "jsnum list \<Rightarrow> jsnum" where
  "confidence vs = parseFloat (predictionValue vs)"

text \<open>Whether a number lies between two bounds; \<open>NaN\<close> and the infinities do not.\<close>

fun js_between :: "rat \<Rightarrow> rat \<Rightarrow> jsnum \<Rightarrow> bool" where
  "js_between lo hi (Num q) = (lo \<le> q \<and> q \<le> hi)"
| "js_between lo hi x = False"

text \<open>\<open>x > 50\<close> on a number: false on \<open>NaN\<close>.\<close>

fun js_gt :: "jsnum \<Rightarrow> rat \<Rightarrow> bool" where
  "js_gt (Num q) c = (c < q)"
| "js_gt NaN c = False"
| "js_gt PosInf c = True"
| "js_gt NegInf c = False"

text \<open>
  \<open>const result = parseFloat(predictionValue) > 50 ? "Cancer" : "Non-cancer"\<close> and
  \<open>const suggestion = result === "Cancer" ? ... : ...\<close>
\<close>

definition result_label :: "jsnum \<Rightarrow> string" where
  "result_label score = (if js_gt score 50 then ''Cancer'' else ''Non-cancer'')"

definition suggestion_for :: "string \<Rightarrow> string" where
  "suggestion_for result =
     (if result = ''Cancer'' then ''Segera periksa ke dokter!''
      else ''Penyakit kanker tidak terdeteksi.'')"

section \<open>Tensors and image preprocessing\<close>

text \<open>
  A tensor is a shape and its elements in row-major order. \<open>tf.node.decodeImage\<close>
  returns an \<open>int32\<close> tensor; the later stages are \<open>float32\<close> tensors, whose elements
  are kept as exact rationals.
\<close>

record 'a tensor =
  shape :: "nat list"
  vals :: "'a list"

type_synonym bytes = "8 word list"

datatype error =
    ModelFileNotFound
  | StorageError
  | LoadGraphModelError
  | DecodeImageError
  | ResizeError
  | PredictError
  | FirestoreError

text \<open>
  Modelled from the spec: \<open>tf.image.resizeBilinear\<close> is a function of the TensorFlow.js
  library, which is not part of this repository. Section 4.2 asks for a resize "using
  bilinear interpolation to exactly 224 x 224, regardless of source aspect ratio (no
  cropping, direct stretch)". With the default options of the call in the source (corners
  not aligned, no half-pixel centres) output coordinate \<open>i\<close> reads the input at
  \<open>i * in_size / out_size\<close>, between the pixel below and the pixel above, the latter
  clamped to the last one.
\<close>

definition interp_coord :: "nat \<Rightarrow> nat \<Rightarrow> nat \<Rightarrow> nat \<times> nat \<times> rat" where
  "interp_coord in_size out_size i =
     (let in_f = (of_nat i * (of_nat in_size / of_nat out_size) :: rat);
          lower = nat (max \<lfloor>in_f\<rfloor> 0);
          upper = nat (min \<lceil>in_f\<rceil> (int in_size - 1))
      in (lower, upper, in_f - of_int \<lfloor>in_f\<rfloor>))"

text \<open>Element \<open>(b, y, x, ch)\<close> of a row-major tensor of shape \<open>[_, H, W, C]\<close>.\<close>

definition at4 :: "nat \<Rightarrow> nat \<Rightarrow> nat \<Rightarrow> 'a list \<Rightarrow> nat \<Rightarrow> nat \<Rightarrow> nat \<Rightarrow> nat \<Rightarrow> 'a" where
  "at4 H W C xs b y x ch = xs ! (((b * H + y) * W + x) * C + ch)"

definition lerp :: "rat \<Rightarrow> rat \<Rightarrow> rat \<Rightarrow> rat" where
  "lerp a b t = a + (b - a) * t"

definition bilinear_pixel ::
  "nat \<Rightarrow> nat \<Rightarrow> nat \<Rightarrow> int list \<Rightarrow> nat \<Rightarrow> nat \<Rightarrow> nat \<Rightarrow> nat \<Rightarrow> nat \<Rightarrow> nat \<Rightarrow> rat" where
  "bilinear_pixel H W C xs oh ow b y x ch =
     (case interp_coord H oh y of (y0, y1, y_lerp) \<Rightarrow>
      case interp_coord W ow x of (x0, x1, x_lerp) \<Rightarrow>
        (let top_left = of_int (at4 H W C xs b y0 x0 ch);
             top_right = of_int (at4 H W C xs b y0 x1 ch);
             bottom_left = of_int (at4 H W C xs b y1 x0 ch);
             bottom_right = of_int (at4 H W C xs b y1 x1 ch);
             top = lerp top_left top_right x_lerp;
             bottom = lerp bottom_left bottom_right x_lerp
         in lerp top bottom y_lerp))"

definition resize4 ::
  "nat \<Rightarrow> nat \<Rightarrow> nat \<Rightarrow> nat \<Rightarrow> int list \<Rightarrow> nat \<Rightarrow> nat \<Rightarrow> rat list" where
  "resize4 B H W C xs oh ow =
     concat (map (\<lambda>b. concat (map (\<lambda>y. concat (map (\<lambda>x.
       map (\<lambda>ch. bilinear_pixel H W C xs oh ow b y x ch) [0..<C])
         [0..<ow])) [0..<oh])) [0..<B])"

text \<open>
  The library accepts a rank-3 image (treated as a batch of one and reshaped back) or a
  rank-4 batch, and a size of two entries; it throws on anything else and on an image
  with no pixels.
\<close>

fun resizeBilinear :: "int tensor \<Rightarrow> nat list \<Rightarrow> error + rat tensor" where
  "resizeBilinear images [oh, ow] =
     (case shape images of
        [h, w, c] \<Rightarrow>
          if h = 0 \<or> w = 0 then Inl ResizeError
          else Inr \<lparr>shape = [oh, ow, c], vals = resize4 1 h w c (vals images) oh ow\<rparr>
      | [b, h, w, c] \<Rightarrow>
          if h = 0 \<or> w = 0 then Inl ResizeError
          else Inr \<lparr>shape = [b, oh, ow, c], vals = resize4 b h w c (vals images) oh ow\<rparr>
      | _ \<Rightarrow> Inl ResizeError)"
| "resizeBilinear images _ = Inl ResizeError"

text \<open>\<open>t.div(255.0)\<close>: every element divided by the scalar.\<close>

definition tensor_div :: "rat tensor \<Rightarrow> rat \<Rightarrow> rat tensor" where
  "tensor_div t d = \<lparr>shape = shape t, vals = map (\<lambda>v. v / d) (vals t)\<rparr>"

text \<open>\<open>t.expandDims(axis)\<close>: a dimension of size 1 inserted at \<open>axis\<close>, the elements kept.\<close>

definition expandDims :: "'a tensor \<Rightarrow> nat \<Rightarrow> 'a tensor" where
  "expandDims t axis =
     \<lparr>shape = take axis (shape t) @ [1] @ drop axis (shape t), vals = vals t\<rparr>"

text \<open>
  Lines 73 to 76 of the handler: decode, resize to 224 x 224, divide by 255, prepend the
  batch dimension. The decoder is the library's; it is a parameter, and throws on bytes
  that are not an image.
\<close>

definition preprocess :: "(bytes \<Rightarrow> error + int tensor) \<Rightarrow> bytes \<Rightarrow> error + rat tensor" where
  "preprocess decoder imageBuffer =
     (case decoder imageBuffer of
        Inl e \<Rightarrow> Inl e
      | Inr tfImage \<Rightarrow>
          (case resizeBilinear tfImage [224, 224] of
             Inl e \<Rightarrow> Inl e
           | Inr resizedImage \<Rightarrow> Inr (expandDims (tensor_div resizedImage 255) 0)))"

text \<open>
  What the decoder returns for a still image (PNG, JPEG, BMP): shape
  \<open>[height, width, channels]\<close> with at least one pixel, one element per entry of the
  shape, every element a byte value.
\<close>

definition still_image :: "int tensor \<Rightarrow> nat \<Rightarrow> nat \<Rightarrow> nat \<Rightarrow> bool" where
  "still_image img h w c =
     (shape img = [h, w, c] \<and> 0 < h \<and> 0 < w \<and> 0 < c \<and>
      length (vals img) = h * w * c \<and> list_all (\<lambda>p. 0 \<le> p \<and> p \<le> 255) (vals img))"

section \<open>The prediction handler\<close>

text \<open>
  The loaded model: \<open>predict\<close> runs the graph on the input tensor and returns the output
  tensor, or throws when it rejects the input. The handler casts the returned value to a
  single tensor.
\<close>

record model =
  model_id :: nat
  predict :: "rat tensor \<Rightarrow> error + jsnum tensor"

text \<open>The document written to the \<open>predictions\<close> collection and returned as \<open>data\<close>.\<close>

record prediction =
  doc_id :: string
  result :: string
  suggestion :: string
  createdAt :: string

record response =
  status_code :: nat
  status :: string
  message :: string
  data :: "prediction option"

text \<open>\<open>req.file\<close>: the uploaded file's buffer, absent when nothing was uploaded.\<close>

record request =
  req_file :: "bytes option"

text \<open>
  What the collaborators answer during one request: the bucket (\<open>modelFile.exists()\<close>
  resolves to a boolean or rejects), \<open>tf.loadGraphModel\<close>, the image decoder,
  \<open>uuidv4()\<close>, the clock, and the Firestore write (\<open>None\<close> when it succeeds).
\<close>

record world =
  file_exists :: "error + bool"
  loadGraphModel :: "error + model"
  decodeImage :: "bytes \<Rightarrow> error + int tensor"
  uuidv4 :: string
  now_iso :: string
  firestore_set :: "error option"

text \<open>The outside calls of a request, in the order they are made.\<close>

datatype event =
    EvExists
  | EvLoadGraphModel
  | EvDecodeImage
  | EvResizeBilinear
  | EvDiv
  | EvExpandDims
  | EvPredict
  | EvDataSync
  | EvUuid
  | EvNow
  | EvFirestoreSet string
  | EvDispose nat

text \<open>
  The state of the process: the module-level variable \<open>cancerModel\<close> (\<open>None\<close> while it
  is \<open>undefined\<close>), the \<open>predictions\<close> collection, the tensors of the TensorFlow
  runtime that are allocated and not disposed (by number), and the calls made so far.
\<close>

record server =
  cancerModel :: "model option"
  predictions :: "string \<rightharpoonup> prediction"
  live :: "nat list"
  next_tensor :: nat
  events :: "event list"

text \<open>A piece of the handler: it reads and updates the state and returns or throws.\<close>

type_synonym 'a prog = "server \<Rightarrow> (error + 'a) \<times> server"

definition ret :: "'a \<Rightarrow> 'a prog" where
  "ret x s = (Inr x, s)"

definition throw :: "error \<Rightarrow> 'a prog" where
  "throw e s = (Inl e, s)"

definition bnd :: "'a prog \<Rightarrow> ('a \<Rightarrow> 'b prog) \<Rightarrow> 'b prog" where
  "bnd m f s = (case m s of (Inl e, s') \<Rightarrow> (Inl e, s') | (Inr x, s') \<Rightarrow> f x s')"

text \<open>An outside call: recorded, then its value or its exception.\<close>

definition call :: "event \<Rightarrow> error + 'a \<Rightarrow> 'a prog" where
  "call e r s = (r, s\<lparr>events := events s @ [e]\<rparr>)"

text \<open>Every tensor operation returns a new tensor, registered with the runtime.\<close>

definition alloc :: "'a tensor \<Rightarrow> (nat \<times> 'a tensor) prog" where
  "alloc t s =
     (Inr (next_tensor s, t),
      s\<lparr>live := live s @ [next_tensor s], next_tensor := Suc (next_tensor s)\<rparr>)"

definition tf_op :: "event \<Rightarrow> error + 'a tensor \<Rightarrow> (nat \<times> 'a tensor) prog" where
  "tf_op e r = bnd (call e r) alloc"

definition dispose :: "nat \<times> 'a tensor \<Rightarrow> unit prog" where
  "dispose t s =
     (Inr (), s\<lparr>live := removeAll (fst t) (live s), events := events s @ [EvDispose (fst t)]\<rparr>)"

text \<open>
  \<open>loadModel\<close> (lines 37 to 53): the existence check, the throw when the file is absent,
  the load; the \<open>catch\<close> logs and rethrows.
\<close>

definition loadModel :: "world \<Rightarrow> model prog" where
  "loadModel w =
     bnd (call EvExists (file_exists w)) (\<lambda>exists.
       if \<not> exists then throw ModelFileNotFound
       else call EvLoadGraphModel (loadGraphModel w))"

text \<open>Lines 68 to 70: \<open>if (!cancerModel) { cancerModel = await loadModel(); }\<close>\<close>

definition ensure_model :: "world \<Rightarrow> unit prog" where
  "ensure_model w s =
     (case cancerModel s of
        None \<Rightarrow> bnd (loadModel w) (\<lambda>m s'. (Inr (), s'\<lparr>cancerModel := Some m\<rparr>)) s
      | Some m \<Rightarrow> (Inr (), s))"

text \<open>Line 79: \<open>cancerModel.predict(normalizedImage)\<close> on the variable's current value.\<close>

definition model_predict :: "rat tensor \<Rightarrow> (nat \<times> jsnum tensor) prog" where
  "model_predict t s =
     (case cancerModel s of
        None \<Rightarrow> throw PredictError s
      | Some m \<Rightarrow> tf_op EvPredict (predict m t) s)"

text \<open>
  Lines 94 to 99: \<open>predictionsCollection.doc(responseId).set({...})\<close>. A write that
  is rejected stores nothing.
\<close>

definition firestore_write :: "world \<Rightarrow> string \<Rightarrow> prediction \<Rightarrow> unit prog" where
  "firestore_write w k doc s =
     (case firestore_set w of
        Some e \<Rightarrow> (Inl e, s\<lparr>events := events s @ [EvFirestoreSet k]\<rparr>)
      | None \<Rightarrow>
          (Inr (), s\<lparr>predictions := (predictions s)(k \<mapsto> doc),
                     events := events s @ [EvFirestoreSet k]\<rparr>))"

text \<open>The body of the \<open>try\<close> block after the check of \<open>req.file\<close> (lines 67 to 116).\<close>

definition predict_try :: "world \<Rightarrow> bytes \<Rightarrow> response prog" where
  "predict_try w imageBuffer =
     bnd (ensure_model w) (\<lambda>_.
     bnd (tf_op EvDecodeImage (decodeImage w imageBuffer)) (\<lambda>tfImage.
     bnd (tf_op EvResizeBilinear (resizeBilinear (snd tfImage) [224, 224])) (\<lambda>resizedImage.
     bnd (tf_op EvDiv (Inr (tensor_div (snd resizedImage) 255))) (\<lambda>divided.
     bnd (tf_op EvExpandDims (Inr (expandDims (snd divided) 0))) (\<lambda>normalizedImage.
     bnd (model_predict (snd normalizedImage)) (\<lambda>prediction.
     bnd (call EvDataSync (Inr (vals (snd prediction)))) (\<lambda>values.
     let result = result_label (parseFloat (predictionValue values));
         suggestion = suggestion_for result in
     bnd (call EvUuid (Inr (uuidv4 w))) (\<lambda>responseId.
     bnd (call EvNow (Inr (now_iso w))) (\<lambda>createdAt.
     let doc = \<lparr>doc_id = responseId, result = result, suggestion = suggestion,
                createdAt = createdAt\<rparr> in
     bnd (firestore_write w responseId doc) (\<lambda>_.
     bnd (dispose tfImage) (\<lambda>_.
     bnd (dispose resizedImage) (\<lambda>_.
     bnd (dispose normalizedImage) (\<lambda>_.
     bnd (dispose prediction) (\<lambda>_.
     ret \<lparr>status_code = 200, status = ''success'',
          message = ''Model is predicted successfully'', data = Some doc\<rparr>))))))))))))))"

definition no_image_response :: response where
  "no_image_response =
     \<lparr>status_code = 400, status = ''fail'', message = ''No image uploaded'', data = None\<rparr>"

definition failure_response :: response where
  "failure_response =
     \<lparr>status_code = 400, status = ''fail'',
      message = ''Terjadi kesalahan dalam melakukan prediksi'', data = None\<rparr>"

text \<open>
  The handler of \<open>POST /predict\<close> (lines 58 to 124): the early return when no file was
  uploaded, the \<open>try\<close> block, and the \<open>catch\<close> that answers every exception alike.
\<close>

definition handler :: "world \<Rightarrow> request \<Rightarrow> server \<Rightarrow> response \<times> server" where
  "handler w req s =
     (case req_file req of
        None \<Rightarrow> (no_image_response, s)
      | Some imageBuffer \<Rightarrow>
          (case predict_try w imageBuffer s of
             (Inr r, s') \<Rightarrow> (r, s')
           | (Inl e, s') \<Rightarrow> (failure_response, s')))"

text \<open>The calls a request added to the record of calls.\<close>

definition new_events :: "server \<Rightarrow> server \<Rightarrow> event list" where
  "new_events s s' = drop (length (events s)) (events s')"

text \<open>Whether a call is a write to the \<open>predictions\<close> collection.\<close>

fun is_write :: "event \<Rightarrow> bool" where
  "is_write (EvFirestoreSet k) = True"
| "is_write e = False"

subsection \<open>Example inputs\<close>

text \<open>
  A one-pixel white RGB image, a one-pixel RGBA image, a model that answers 0.8, and a
  fresh process.
\<close>

definition white_pixel :: "int tensor" where
  "white_pixel = \<lparr>shape = [1, 1, 3], vals = [255, 255, 255]\<rparr>"

definition rgba_pixel :: "int tensor" where
  "rgba_pixel = \<lparr>shape = [1, 1, 4], vals = [255, 0, 0, 255]\<rparr>"

definition png_bytes :: bytes where
  "png_bytes = [137, 80, 78, 71]"

definition model0 :: model where
  "model0 = \<lparr>model_id = 0, predict = (\<lambda>t. Inr \<lparr>shape = [1, 1], vals = [Num (4 / 5)]\<rparr>)\<rparr>"

definition world0 :: world where
  "world0 =
     \<lparr>file_exists = Inr True, loadGraphModel = Inr model0,
      decodeImage = (\<lambda>b. Inr white_pixel), uuidv4 = ''id-1'',
      now_iso = ''2024-01-01T00:00:00.000Z'', firestore_set = None\<rparr>"

definition server0 :: server where
  "server0 =
     \<lparr>cancerModel = None, predictions = Map.empty, live = [], next_tensor = 0, events = []\<rparr>"

definition request0 :: request where
  "request0 = \<lparr>req_file = Some png_bytes\<rparr>"

section \<open>Concurrent callers of the model provider\<close>










section \<open>Proofs: the confidence score and its interpretation\<close>

lemma floor_numeral_div:
  "\<lfloor>numeral a / numeral b :: rat\<rfloor> = numeral a div numeral b"
  using floor_divide_of_int_eq[of "numeral a" "numeral b", where ?'a = rat] by simp

lemma round_hundredths:
  fixes a :: rat assumes "0 \<le> a"
  shows "\<bar>of_int \<lfloor>a * 100 + 1 / 2\<rfloor> / 100 - a\<bar> \<le> 1 / 200"
    and "0 \<le> \<lfloor>a * 100 + 1 / 2\<rfloor>"
proof -
  define n where "n = \<lfloor>a * 100 + 1 / 2\<rfloor>"
  have 1: "of_int n \<le> a * 100 + 1 / 2" unfolding n_def by (rule of_int_floor_le)
  have 2: "a * 100 + 1 / 2 < of_int n + 1" unfolding n_def by linarith
  have "\<bar>of_int n - a * 100\<bar> \<le> 1 / 2" using 1 2 by linarith
  then have "\<bar>(of_int n - a * 100) / 100\<bar> \<le> (1 / 2) / 100" by (simp add: field_simps)
  then show "\<bar>of_int \<lfloor>a * 100 + 1 / 2\<rfloor> / 100 - a\<bar> \<le> 1 / 200"
    unfolding n_def[symmetric] by (simp add: field_simps)
  show "0 \<le> \<lfloor>a * 100 + 1 / 2\<rfloor>" using assms by simp
qed

lemma confidence_not_finite:
  "confidence [] = NaN" "confidence (NaN # rest) = NaN" "confidence (PosInf # rest) = PosInf"
  "confidence (NegInf # rest) = NegInf"
  by (simp_all add: confidence_def predictionValue_def first_times100_def)

text \<open>
  Claim C2. For every confidence score \<open>s\<close> the interpreter's label is \<open>Cancer\<close> exactly
  when \<open>s > 50\<close> and \<open>Non-cancer\<close> otherwise, so a score of exactly 50 is \<open>Non-cancer\<close>;
  the suggestion is the referral advisory exactly when the label is \<open>Cancer\<close> and the
  no-detection advisory otherwise.
\<close>

theorem interpreter_threshold:
  "((result_label s = ''Cancer'') = js_gt s 50) \<and>
   ((result_label s = ''Non-cancer'') = (\<not> js_gt s 50)) \<and>
   ((result_label (Num q) = ''Cancer'') = (50 < q)) \<and>
   result_label (Num 50) = ''Non-cancer'' \<and>
   ((suggestion_for (result_label s) = ''Segera periksa ke dokter!'') =
      (result_label s = ''Cancer'')) \<and>
   ((suggestion_for (result_label s) = ''Penyakit kanker tidak terdeteksi.'') =
      (result_label s = ''Non-cancer''))"
  by (simp add: result_label_def suggestion_for_def)

text \<open>
  Claim C7. The confidence score is the first scalar of the output tensor times 100,
  rounded to two decimal places: for a first scalar \<open>v\<close> with \<open>|100 v| < 10^21\<close> the score
  is a whole number of hundredths at most half a hundredth away from \<open>100 v\<close>. From
  \<open>10^21\<close> on, \<open>toFixed\<close> prints the number itself, and the score is \<open>100 v\<close>.
\<close>

theorem confidence_rounds_to_hundredths:
  "(\<bar>v * 100\<bar> < 10 ^ 21 \<longrightarrow>
      (\<exists>n::int. confidence (Num v # rest) = Num (of_int n / 100) \<and>
         \<bar>of_int n / 100 - v * 100\<bar> \<le> 1 / 200)) \<and>
   (10 ^ 21 \<le> \<bar>v * 100\<bar> \<longrightarrow> confidence (Num v # rest) = Num (v * 100))"
proof (intro conjI impI)
  assume small: "\<bar>v * 100\<bar> < 10 ^ 21"
  define a where "a = \<bar>v * 100\<bar>"
  define k where "k = \<lfloor>a * 100 + 1 / 2\<rfloor>"
  have a0: "0 \<le> a" by (simp add: a_def)
  have k0: "0 \<le> k" and err: "\<bar>of_int k / 100 - a\<bar> \<le> 1 / 200"
    using round_hundredths[OF a0] by (simp_all add: k_def)
  have c: "confidence (Num v # rest) = Num ((if v * 100 < 0 then - 1 else 1) * (of_nat (nat k) / 100))"
    using small by (simp add: confidence_def predictionValue_def first_times100_def k_def a_def)
  show "\<exists>n::int. confidence (Num v # rest) = Num (of_int n / 100) \<and>
         \<bar>of_int n / 100 - v * 100\<bar> \<le> 1 / 200"
  proof (cases "v * 100 < 0")
    case True
    then have "a = - (v * 100)" by (simp add: a_def)
    then have "rat_of_int (- k) / 100 - v * 100 = - (of_int k / 100 - a)" by simp
    then have "\<bar>rat_of_int (- k) / 100 - v * 100\<bar> \<le> 1 / 200"
      using err by (simp only: abs_minus)
    moreover have "confidence (Num v # rest) = Num (of_int (- k) / 100)"
      using c k0 True by simp
    ultimately show ?thesis by blast
  next
    case False
    then have "a = v * 100" by (simp add: a_def)
    then have "\<bar>rat_of_int k / 100 - v * 100\<bar> \<le> 1 / 200" using err by simp
    moreover have "confidence (Num v # rest) = Num (of_int k / 100)"
      using c k0 False by simp
    ultimately show ?thesis by blast
  qed
next
  assume "10 ^ 21 \<le> \<bar>v * 100\<bar>"
  then show "confidence (Num v # rest) = Num (v * 100)"
    by (simp add: confidence_def predictionValue_def first_times100_def)
qed

theorem confidence_rounds_to_hundredths_witness:
  "\<bar>(4 / 5 :: rat) * 100\<bar> < 10 ^ 21 \<and> confidence [Num (4 / 5)] = Num 80 \<and>
   (\<exists>n::int. confidence [Num (4 / 5)] = Num (of_int n / 100) \<and>
      \<bar>of_int n / 100 - (4 / 5) * 100\<bar> \<le> (1 / 200 :: rat)) \<and>
   (10 ^ 21 :: rat) \<le> \<bar>10 ^ 20 * 100\<bar> \<and> confidence [Num (10 ^ 20)] = Num (10 ^ 20 * 100)"
proof -
  have s: "\<bar>(4 / 5 :: rat) * 100\<bar> < 10 ^ 21" by simp
  have e: "confidence [Num (4 / 5)] = Num 80"
    by (simp add: confidence_def predictionValue_def first_times100_def floor_numeral_div)
  have b: "(10 ^ 21 :: rat) \<le> \<bar>10 ^ 20 * 100\<bar>" by simp
  show ?thesis
    using s e b confidence_rounds_to_hundredths[of "4 / 5" "[]"]
      confidence_rounds_to_hundredths[of "10 ^ 20" "[]"]
    by blast
qed

text \<open>
  Claim C8, as the code has it. The score is derived from element 0 of the model output
  and lies in \<open>[0, 100]\<close> whenever that element lies in \<open>[0, 1]\<close>; the handler does not
  clamp or check it.
\<close>

theorem confidence_in_percent_range:
  assumes "0 \<le> v" "v \<le> 1"
  shows "js_between 0 100 (confidence (Num v # rest))"
proof -
  define k where "k = \<lfloor>v * 100 * 100 + 1 / 2\<rfloor>"
  have small: "\<bar>v * 100\<bar> < 10 ^ 21" using assms by simp
  have abs: "\<bar>v * 100\<bar> = v * 100" using assms by simp
  have k0: "0 \<le> k" using assms by (simp add: k_def)
  have "v * 100 * 100 + 1 / 2 < 10001" using assms by simp
  then have "k < 10001" unfolding k_def by (simp add: floor_less_iff)
  then have k1: "k \<le> 10000" by simp
  have c: "confidence (Num v # rest) = Num (of_nat (nat k) / 100)"
    using small assms
    by (simp add: confidence_def predictionValue_def first_times100_def abs k_def)
  have "rat_of_nat (nat k) \<le> 10000"
    using k0 k1
    by (simp add: nat_le_iff of_nat_le_iff[of _ 10000, where ?'a = rat, simplified])
  then show ?thesis unfolding c by simp
qed

theorem confidence_in_percent_range_witness:
  "(0::rat) \<le> 4 / 5 \<and> (4 / 5 :: rat) \<le> 1 \<and> js_between 0 100 (confidence [Num (4 / 5)])"
proof -
  have a: "(0::rat) \<le> 4 / 5" and b: "(4 / 5 :: rat) \<le> 1" by simp_all
  show ?thesis using a b confidence_in_percent_range[OF a b, of "[]"] by simp
qed

text \<open>A model that answers 1.5 gives the score 150.\<close>

theorem confidence_out_of_range_counterexample:
  "confidence [Num (3 / 2)] = Num 150 \<and> \<not> js_between 0 100 (confidence [Num (3 / 2)])"
  by (simp add: confidence_def predictionValue_def first_times100_def floor_numeral_div)

section \<open>Proofs: preprocessing\<close>

lemma interp_coord_bounds:
  assumes "0 < n" "0 < m" "i < m" "interp_coord n m i = (lo, hi, t)"
  shows "lo < n \<and> hi < n \<and> 0 \<le> t \<and> t \<le> 1"
proof -
  define f :: rat where "f = of_nat i * (of_nat n / of_nat m)"
  have f0: "0 \<le> f" unfolding f_def by simp
  have "of_nat i * (of_nat n :: rat) < of_nat m * of_nat n"
    using assms by (simp add: mult_strict_right_mono)
  then have fn: "f < of_nat n" unfolding f_def using assms(2)
    by (simp add: field_simps)
  have fl: "\<lfloor>f\<rfloor> < int n" using fn by (simp add: floor_less_iff)
  have fl0: "0 \<le> \<lfloor>f\<rfloor>" using f0 by simp
  have lo: "lo = nat (max \<lfloor>f\<rfloor> 0)" and hi: "hi = nat (min \<lceil>f\<rceil> (int n - 1))"
    and t: "t = f - of_int \<lfloor>f\<rfloor>"
    using assms(4) unfolding interp_coord_def f_def Let_def by auto
  have "lo < n" using lo fl fl0 by linarith
  moreover have "hi < n" using hi assms(1) by linarith
  moreover have "0 \<le> t" unfolding t by linarith
  moreover have "t \<le> 1" unfolding t by linarith
  ultimately show ?thesis by simp
qed

lemma index4_bound:
  assumes "b < B" "y < H" "x < W" "ch < C"
  shows "((b * H + y) * W + x) * C + ch < B * H * W * (C::nat)"
proof -
  have 1: "b * H + y + 1 \<le> B * H"
  proof -
    have "b * H + y + 1 \<le> b * H + H" using assms by simp
    also have "\<dots> = (b + 1) * H" by simp
    also have "\<dots> \<le> B * H" using assms by (intro mult_le_mono1) simp
    finally show ?thesis .
  qed
  have 2: "(b * H + y) * W + x + 1 \<le> B * H * W"
  proof -
    have "(b * H + y) * W + x + 1 \<le> (b * H + y) * W + W" using assms by simp
    also have "\<dots> = (b * H + y + 1) * W" by (simp add: algebra_simps)
    also have "\<dots> \<le> B * H * W" using 1 by (intro mult_le_mono1)
    finally show ?thesis .
  qed
  have "((b * H + y) * W + x) * C + ch + 1 \<le> ((b * H + y) * W + x) * C + C" using assms by simp
  also have "\<dots> = ((b * H + y) * W + x + 1) * C" by (simp add: algebra_simps)
  also have "\<dots> \<le> B * H * W * C" using 2 by (intro mult_le_mono1)
  finally show ?thesis by simp
qed

lemma lerp_bounds:
  assumes "lo \<le> a" "a \<le> hi" "lo \<le> b" "b \<le> hi" "0 \<le> t" "t \<le> 1"
  shows "lo \<le> lerp a b t \<and> lerp a b t \<le> hi"
proof -
  have eq: "lerp a b t = (1 - t) * a + t * b" by (simp add: lerp_def algebra_simps)
  have s: "0 \<le> 1 - t" using assms by simp
  have "(1 - t) * lo \<le> (1 - t) * a" "t * lo \<le> t * b"
    "(1 - t) * a \<le> (1 - t) * hi" "t * b \<le> t * hi"
    using assms s by (simp_all add: mult_left_mono)
  moreover have "(1 - t) * lo + t * lo = lo" "(1 - t) * hi + t * hi = hi"
    by (simp_all add: algebra_simps)
  ultimately show ?thesis unfolding eq by linarith
qed

lemma at4_byte:
  assumes "length xs = B * H * W * C" "list_all (\<lambda>p. 0 \<le> p \<and> p \<le> 255) xs"
    "b < B" "y < H" "x < W" "ch < C"
  shows "0 \<le> (of_int (at4 H W C xs b y x ch) :: rat) \<and> (of_int (at4 H W C xs b y x ch) :: rat) \<le> 255"
proof -
  have "((b * H + y) * W + x) * C + ch < length xs"
    using index4_bound[OF assms(3-6)] assms(1) by simp
  then have "at4 H W C xs b y x ch \<in> set xs" unfolding at4_def by simp
  then have "0 \<le> at4 H W C xs b y x ch \<and> at4 H W C xs b y x ch \<le> 255"
    using assms(2) by (simp add: list_all_iff)
  then show ?thesis by simp
qed

lemma bilinear_pixel_byte:
  assumes len: "length xs = B * H * W * C" and bytes: "list_all (\<lambda>p. 0 \<le> p \<and> p \<le> 255) xs"
    and pos: "0 < H" "0 < W" "0 < oh" "0 < ow"
    and idx: "b < B" "y < oh" "x < ow" "ch < C"
  shows "0 \<le> bilinear_pixel H W C xs oh ow b y x ch \<and> bilinear_pixel H W C xs oh ow b y x ch \<le> 255"
proof -
  obtain y0 y1 yl where cy: "interp_coord H oh y = (y0, y1, yl)" by (cases "interp_coord H oh y") auto
  obtain x0 x1 xl where cx: "interp_coord W ow x = (x0, x1, xl)" by (cases "interp_coord W ow x") auto
  have yb: "y0 < H" "y1 < H" "0 \<le> yl" "yl \<le> 1"
    using interp_coord_bounds[OF pos(1) pos(3) idx(2) cy] by simp_all
  have xb: "x0 < W" "x1 < W" "0 \<le> xl" "xl \<le> 1"
    using interp_coord_bounds[OF pos(2) pos(4) idx(3) cx] by simp_all
  note px = at4_byte[OF len bytes idx(1) _ _ idx(4)]
  have top: "0 \<le> lerp (of_int (at4 H W C xs b y0 x0 ch)) (of_int (at4 H W C xs b y0 x1 ch)) xl
      \<and> lerp (of_int (at4 H W C xs b y0 x0 ch)) (of_int (at4 H W C xs b y0 x1 ch)) xl \<le> 255"
    using px[OF yb(1) xb(1)] px[OF yb(1) xb(2)] xb(3,4) by (intro lerp_bounds) simp_all
  have bot: "0 \<le> lerp (of_int (at4 H W C xs b y1 x0 ch)) (of_int (at4 H W C xs b y1 x1 ch)) xl
      \<and> lerp (of_int (at4 H W C xs b y1 x0 ch)) (of_int (at4 H W C xs b y1 x1 ch)) xl \<le> 255"
    using px[OF yb(2) xb(1)] px[OF yb(2) xb(2)] xb(3,4) by (intro lerp_bounds) simp_all
  show ?thesis
    unfolding bilinear_pixel_def cy cx prod.case Let_def
    using top bot yb(3,4) by (intro lerp_bounds) simp_all
qed

lemma length_concat_upt:
  "(\<And>i. length (f i) = n) \<Longrightarrow> length (concat (map f [0..<k])) = k * n"
  by (induction k) simp_all

lemma length_resize4: "length (resize4 B H W C xs oh ow) = B * oh * ow * C"
proof -
  have row: "length (concat (map (\<lambda>x. map (\<lambda>ch. bilinear_pixel H W C xs oh ow b y x ch) [0..<C])
      [0..<ow])) = ow * C" for b y
    by (rule length_concat_upt) simp
  have img: "length (concat (map (\<lambda>y. concat (map (\<lambda>x.
      map (\<lambda>ch. bilinear_pixel H W C xs oh ow b y x ch) [0..<C]) [0..<ow])) [0..<oh])) = oh * (ow * C)" for b
    by (rule length_concat_upt) (rule row)
  have "length (resize4 B H W C xs oh ow) = B * (oh * (ow * C))"
    unfolding resize4_def by (rule length_concat_upt) (rule img)
  then show ?thesis by (simp add: mult.assoc)
qed

lemma resize4_byte:
  assumes len: "length xs = B * H * W * C" and bytes: "list_all (\<lambda>p. 0 \<le> p \<and> p \<le> 255) xs"
    and pos: "0 < H" "0 < W" "0 < oh" "0 < ow" and v: "v \<in> set (resize4 B H W C xs oh ow)"
  shows "0 \<le> v \<and> v \<le> 255"
proof -
  from v obtain b y x ch where "b < B" "y < oh" "x < ow" "ch < C"
    "v = bilinear_pixel H W C xs oh ow b y x ch"
    unfolding resize4_def by auto
  then show ?thesis using bilinear_pixel_byte[OF len bytes pos] by simp
qed

text \<open>
  Claim C3, as the code has it. For every byte sequence that decodes to a still image of
  shape \<open>[h, w, c]\<close>, preprocessing returns a tensor of shape exactly \<open>[1, 224, 224, c]\<close>
  (so \<open>[1, 224, 224, 3]\<close> for an image with three channels), holding one value per entry
  of that shape, every value in \<open>[0, 1]\<close>.
\<close>

theorem preprocess_shape_and_range:
  assumes dec: "decoder imageBuffer = Inr img" and img: "still_image img h w c"
  shows "\<exists>t. preprocess decoder imageBuffer = Inr t \<and> shape t = [1, 224, 224, c] \<and>
    length (vals t) = 224 * 224 * c \<and> (\<forall>v\<in>set (vals t). 0 \<le> v \<and> v \<le> 1)"
proof -
  from img have sh: "shape img = [h, w, c]" and pos: "0 < h" "0 < w"
    and len: "length (vals img) = 1 * h * w * c"
    and bytes: "list_all (\<lambda>p. 0 \<le> p \<and> p \<le> 255) (vals img)"
    by (simp_all add: still_image_def)
  define r where "r = resize4 1 h w c (vals img) 224 224"
  define t where "t = expandDims (tensor_div \<lparr>shape = [224, 224, c], vals = r\<rparr> 255) 0"
  have res: "resizeBilinear img [224, 224] = Inr \<lparr>shape = [224, 224, c], vals = r\<rparr>"
    using sh pos by (simp add: r_def)
  have pre: "preprocess decoder imageBuffer = Inr t"
    by (simp only: preprocess_def dec res t_def sum.case)
  have shape: "shape t = [1, 224, 224, c]"
    by (simp add: t_def expandDims_def tensor_div_def)
  have vals: "vals t = map (\<lambda>v. v / 255) r"
    by (simp add: t_def expandDims_def tensor_div_def)
  have length: "length (vals t) = 224 * 224 * c"
    by (simp add: vals r_def length_resize4)
  have range: "0 \<le> v \<and> v \<le> 1" if "v \<in> set (vals t)" for v
  proof -
    from that obtain u where u: "u \<in> set r" and v: "v = u / 255" unfolding vals by auto
    have "0 \<le> u \<and> u \<le> 255"
      using resize4_byte[OF len bytes pos _ _ u[unfolded r_def]] by simp
    then show ?thesis unfolding v by simp
  qed
  show ?thesis using pre shape length range by blast
qed

theorem preprocess_shape_and_range_witness:
  "(\<lambda>b. Inr white_pixel) png_bytes = (Inr white_pixel :: error + int tensor) \<and>
   still_image white_pixel 1 1 3 \<and>
   shape (projr (preprocess (\<lambda>b. Inr white_pixel) png_bytes)) = [1, 224, 224, 3] \<and>
   length (vals (projr (preprocess (\<lambda>b. Inr white_pixel) png_bytes))) = 224 * 224 * 3 \<and>
   list_all (\<lambda>v. 0 \<le> v \<and> v \<le> 1) (vals (projr (preprocess (\<lambda>b. Inr white_pixel) png_bytes)))"
proof -
  have s: "still_image white_pixel 1 1 3"
    by (simp add: still_image_def white_pixel_def)
  show ?thesis
    using s preprocess_shape_and_range[of "\<lambda>b. Inr white_pixel" png_bytes, OF _ s]
    by (auto simp: list_all_iff)
qed

text \<open>
  The decoder keeps the channels of the file: a PNG with an alpha channel decodes to four
  channels, and the tensor handed to the model has shape \<open>[1, 224, 224, 4]\<close>.
\<close>

theorem preprocess_rgba_shape_counterexample:
  "still_image rgba_pixel 1 1 4 \<and>
   shape (projr (preprocess (\<lambda>b. Inr rgba_pixel) png_bytes)) = [1, 224, 224, 4] \<and>
   shape (projr (preprocess (\<lambda>b. Inr rgba_pixel) png_bytes)) \<noteq> [1, 224, 224, 3]"
  by (simp add: still_image_def rgba_pixel_def preprocess_def expandDims_def tensor_div_def)

text \<open>The tensor the handler hands to the model is the one \<open>preprocess\<close> returns.\<close>

lemma preprocess_is_model_input:
  "decodeImage w imageBuffer = Inr tfImage \<Longrightarrow>
   resizeBilinear tfImage [224, 224] = Inr resizedImage \<Longrightarrow>
   preprocess (decodeImage w) imageBuffer = Inr (expandDims (tensor_div resizedImage 255) 0)"
  by (simp only: preprocess_def sum.case)

section \<open>Proofs: the handler, outcome by outcome\<close>

declare resizeBilinear.simps [simp del]

lemmas prim_defs = tf_op_def call_def alloc_def dispose_def bnd_def ret_def throw_def Let_def

lemma ensure_cached: "cancerModel s = Some m \<Longrightarrow> ensure_model w s = (Inr (), s)"
  by (simp add: ensure_model_def)

lemma ensure_exists_throws:
  "cancerModel s = None \<Longrightarrow> file_exists w = Inl e \<Longrightarrow>
   ensure_model w s = (Inl e, s\<lparr>events := events s @ [EvExists]\<rparr>)"
  by (simp add: ensure_model_def loadModel_def prim_defs)

lemma ensure_absent:
  "cancerModel s = None \<Longrightarrow> file_exists w = Inr False \<Longrightarrow>
   ensure_model w s = (Inl ModelFileNotFound, s\<lparr>events := events s @ [EvExists]\<rparr>)"
  by (simp add: ensure_model_def loadModel_def prim_defs)

lemma ensure_load_throws:
  "cancerModel s = None \<Longrightarrow> file_exists w = Inr True \<Longrightarrow> loadGraphModel w = Inl e \<Longrightarrow>
   ensure_model w s = (Inl e, s\<lparr>events := events s @ [EvExists, EvLoadGraphModel]\<rparr>)"
  by (simp add: ensure_model_def loadModel_def prim_defs)

lemma ensure_loaded:
  "cancerModel s = None \<Longrightarrow> file_exists w = Inr True \<Longrightarrow> loadGraphModel w = Inr m \<Longrightarrow>
   ensure_model w s =
     (Inr (), s\<lparr>cancerModel := Some m, events := events s @ [EvExists, EvLoadGraphModel]\<rparr>)"
  by (simp add: ensure_model_def loadModel_def prim_defs)

lemma try_no_model: "ensure_model w s = (Inl e, s1) \<Longrightarrow> predict_try w buf s = (Inl e, s1)"
  by (simp add: predict_try_def bnd_def)

lemma try_decode_throws:
  "ensure_model w s = (Inr (), s1) \<Longrightarrow> decodeImage w buf = Inl e \<Longrightarrow>
   predict_try w buf s = (Inl e, s1\<lparr>events := events s1 @ [EvDecodeImage]\<rparr>)"
  by (simp add: predict_try_def prim_defs)

lemma try_resize_throws:
  "ensure_model w s = (Inr (), s1) \<Longrightarrow> decodeImage w buf = Inr img \<Longrightarrow>
   resizeBilinear img [224, 224] = Inl e \<Longrightarrow>
   predict_try w buf s =
     (Inl e, s1\<lparr>live := live s1 @ [next_tensor s1], next_tensor := Suc (next_tensor s1),
                events := events s1 @ [EvDecodeImage, EvResizeBilinear]\<rparr>)"
  by (simp add: predict_try_def prim_defs)

lemma try_predict_throws:
  "ensure_model w s = (Inr (), s1) \<Longrightarrow> cancerModel s1 = Some m \<Longrightarrow>
   decodeImage w buf = Inr img \<Longrightarrow> resizeBilinear img [224, 224] = Inr r \<Longrightarrow>
   predict m (expandDims (tensor_div r 255) 0) = Inl e \<Longrightarrow>
   predict_try w buf s =
     (Inl e, s1\<lparr>live := live s1 @ [next_tensor s1, next_tensor s1 + 1, next_tensor s1 + 2,
                  next_tensor s1 + 3],
                next_tensor := next_tensor s1 + 4,
                events := events s1 @ [EvDecodeImage, EvResizeBilinear, EvDiv, EvExpandDims,
                  EvPredict]\<rparr>)"
  by (simp add: predict_try_def model_predict_def prim_defs)

lemma try_write_fails:
  "ensure_model w s = (Inr (), s1) \<Longrightarrow> cancerModel s1 = Some m \<Longrightarrow>
   decodeImage w buf = Inr img \<Longrightarrow> resizeBilinear img [224, 224] = Inr r \<Longrightarrow>
   predict m (expandDims (tensor_div r 255) 0) = Inr out \<Longrightarrow> firestore_set w = Some e \<Longrightarrow>
   predict_try w buf s =
     (Inl e, s1\<lparr>live := live s1 @ [next_tensor s1, next_tensor s1 + 1, next_tensor s1 + 2,
                  next_tensor s1 + 3, next_tensor s1 + 4],
                next_tensor := next_tensor s1 + 5,
                events := events s1 @ [EvDecodeImage, EvResizeBilinear, EvDiv, EvExpandDims,
                  EvPredict, EvDataSync, EvUuid, EvNow, EvFirestoreSet (uuidv4 w)]\<rparr>)"
  by (cases s1)
    (simp add: predict_try_def model_predict_def firestore_write_def prim_defs eval_nat_numeral)

lemma try_success:
  "ensure_model w s = (Inr (), s1) \<Longrightarrow> cancerModel s1 = Some m \<Longrightarrow>
   decodeImage w buf = Inr img \<Longrightarrow> resizeBilinear img [224, 224] = Inr r \<Longrightarrow>
   predict m (expandDims (tensor_div r 255) 0) = Inr out \<Longrightarrow> firestore_set w = None \<Longrightarrow>
   predict_try w buf s =
     (Inr \<lparr>status_code = 200, status = ''success'',
           message = ''Model is predicted successfully'',
           data = Some \<lparr>doc_id = uuidv4 w,
             result = result_label (parseFloat (predictionValue (vals out))),
             suggestion = suggestion_for (result_label (parseFloat (predictionValue (vals out)))),
             createdAt = now_iso w\<rparr>\<rparr>,
      s1\<lparr>predictions := (predictions s1)(uuidv4 w \<mapsto> \<lparr>doc_id = uuidv4 w,
             result = result_label (parseFloat (predictionValue (vals out))),
             suggestion = suggestion_for (result_label (parseFloat (predictionValue (vals out)))),
             createdAt = now_iso w\<rparr>),
         live := removeAll (next_tensor s1 + 4) (removeAll (next_tensor s1 + 3)
           (removeAll (next_tensor s1 + 1) (removeAll (next_tensor s1)
             (live s1 @ [next_tensor s1, next_tensor s1 + 1, next_tensor s1 + 2,
                next_tensor s1 + 3, next_tensor s1 + 4])))),
         next_tensor := next_tensor s1 + 5,
         events := events s1 @ [EvDecodeImage, EvResizeBilinear, EvDiv, EvExpandDims,
           EvPredict, EvDataSync, EvUuid, EvNow, EvFirestoreSet (uuidv4 w),
           EvDispose (next_tensor s1), EvDispose (next_tensor s1 + 1),
           EvDispose (next_tensor s1 + 3), EvDispose (next_tensor s1 + 4)]\<rparr>)"
  by (cases s1)
    (simp add: predict_try_def model_predict_def firestore_write_def prim_defs eval_nat_numeral)

lemma ensure_cases:
  obtains
    (cached) m where "cancerModel s = Some m" "ensure_model w s = (Inr (), s)"
  | (exists_throws) e where "cancerModel s = None" "file_exists w = Inl e"
      "ensure_model w s = (Inl e, s\<lparr>events := events s @ [EvExists]\<rparr>)"
  | (absent) "cancerModel s = None" "file_exists w = Inr False"
      "ensure_model w s = (Inl ModelFileNotFound, s\<lparr>events := events s @ [EvExists]\<rparr>)"
  | (load_throws) e where "cancerModel s = None" "file_exists w = Inr True"
      "loadGraphModel w = Inl e"
      "ensure_model w s = (Inl e, s\<lparr>events := events s @ [EvExists, EvLoadGraphModel]\<rparr>)"
  | (loaded) m where "cancerModel s = None" "file_exists w = Inr True"
      "loadGraphModel w = Inr m"
      "ensure_model w s =
         (Inr (), s\<lparr>cancerModel := Some m, events := events s @ [EvExists, EvLoadGraphModel]\<rparr>)"
proof (cases "cancerModel s")
  case (Some m)
  then show ?thesis using cached ensure_cached by blast
next
  case None
  show ?thesis
  proof (cases "file_exists w")
    case (Inl e)
    then show ?thesis using None exists_throws ensure_exists_throws by blast
  next
    case (Inr b)
    show ?thesis
    proof (cases b)
      case False
      with Inr have "file_exists w = Inr False" by simp
      then show ?thesis using None absent ensure_absent by blast
    next
      case True
      with Inr have ex: "file_exists w = Inr True" by simp
      show ?thesis
      proof (cases "loadGraphModel w")
        case (Inl e)
        then show ?thesis using None ex load_throws ensure_load_throws by blast
      next
        case Inr2: (Inr m)
        then show ?thesis using None ex loaded ensure_loaded by blast
      qed
    qed
  qed
qed

lemma ensure_frame:
  assumes "ensure_model w s = (r, s1)"
  shows "predictions s1 = predictions s \<and> live s1 = live s \<and> next_tensor s1 = next_tensor s \<and>
    (\<exists>A. events s1 = events s @ A \<and> set A \<subseteq> {EvExists, EvLoadGraphModel})"
  using assms by (cases rule: ensure_cases[of s w]) auto

lemma ensure_ok_model:
  assumes "ensure_model w s = (Inr u, s1)"
  shows "\<exists>m. cancerModel s1 = Some m"
  using assms by (cases rule: ensure_cases[of s w]) auto

lemma handler_no_file: "req_file req = None \<Longrightarrow> handler w req s = (no_image_response, s)"
  by (simp add: handler_def)

lemma handler_cases:
  obtains
    (no_file) "req_file req = None" "handler w req s = (no_image_response, s)"
  | (no_model) buf e s1 where "req_file req = Some buf" "ensure_model w s = (Inl e, s1)"
      "handler w req s = (failure_response, s1)"
  | (decode_throws) buf s1 e where "req_file req = Some buf" "ensure_model w s = (Inr (), s1)"
      "decodeImage w buf = Inl e"
      "handler w req s = (failure_response, s1\<lparr>events := events s1 @ [EvDecodeImage]\<rparr>)"
  | (resize_throws) buf s1 img e where "req_file req = Some buf"
      "ensure_model w s = (Inr (), s1)" "decodeImage w buf = Inr img"
      "resizeBilinear img [224, 224] = Inl e"
      "handler w req s =
        (failure_response,
         s1\<lparr>live := live s1 @ [next_tensor s1], next_tensor := Suc (next_tensor s1),
            events := events s1 @ [EvDecodeImage, EvResizeBilinear]\<rparr>)"
  | (predict_throws) buf s1 m img r e where "req_file req = Some buf"
      "ensure_model w s = (Inr (), s1)" "cancerModel s1 = Some m" "decodeImage w buf = Inr img"
      "resizeBilinear img [224, 224] = Inr r"
      "predict m (expandDims (tensor_div r 255) 0) = Inl e"
      "handler w req s =
        (failure_response,
         s1\<lparr>live := live s1 @ [next_tensor s1, next_tensor s1 + 1, next_tensor s1 + 2,
              next_tensor s1 + 3],
            next_tensor := next_tensor s1 + 4,
            events := events s1 @ [EvDecodeImage, EvResizeBilinear, EvDiv, EvExpandDims,
              EvPredict]\<rparr>)"
  | (write_fails) buf s1 m img r out e where "req_file req = Some buf"
      "ensure_model w s = (Inr (), s1)" "cancerModel s1 = Some m" "decodeImage w buf = Inr img"
      "resizeBilinear img [224, 224] = Inr r"
      "predict m (expandDims (tensor_div r 255) 0) = Inr out" "firestore_set w = Some e"
      "handler w req s =
        (failure_response,
         s1\<lparr>live := live s1 @ [next_tensor s1, next_tensor s1 + 1, next_tensor s1 + 2,
              next_tensor s1 + 3, next_tensor s1 + 4],
            next_tensor := next_tensor s1 + 5,
            events := events s1 @ [EvDecodeImage, EvResizeBilinear, EvDiv, EvExpandDims,
              EvPredict, EvDataSync, EvUuid, EvNow, EvFirestoreSet (uuidv4 w)]\<rparr>)"
  | (success) buf s1 m img r out where "req_file req = Some buf"
      "ensure_model w s = (Inr (), s1)" "cancerModel s1 = Some m" "decodeImage w buf = Inr img"
      "resizeBilinear img [224, 224] = Inr r"
      "predict m (expandDims (tensor_div r 255) 0) = Inr out" "firestore_set w = None"
      "status_code (fst (handler w req s)) = 200"
      "predictions (snd (handler w req s)) =
         (predictions s1)(uuidv4 w \<mapsto> the (data (fst (handler w req s))))"
      "cancerModel (snd (handler w req s)) = Some m"
      "events (snd (handler w req s)) =
         events s1 @ [EvDecodeImage, EvResizeBilinear, EvDiv, EvExpandDims,
           EvPredict, EvDataSync, EvUuid, EvNow, EvFirestoreSet (uuidv4 w),
           EvDispose (next_tensor s1), EvDispose (next_tensor s1 + 1),
           EvDispose (next_tensor s1 + 3), EvDispose (next_tensor s1 + 4)]"
proof (cases "req_file req")
  case None
  then show ?thesis using no_file handler_no_file by blast
next
  case (Some buf)
  obtain r0 s1 where ens: "ensure_model w s = (r0, s1)" by (cases "ensure_model w s") auto
  show ?thesis
  proof (cases r0)
    case (Inl e)
    with ens have e: "ensure_model w s = (Inl e, s1)" by simp
    have "handler w req s = (failure_response, s1)"
      by (simp add: handler_def Some try_no_model[OF e])
    then show ?thesis using no_model Some e by blast
  next
    case (Inr u)
    with ens have e: "ensure_model w s = (Inr (), s1)" by simp
    obtain m where m: "cancerModel s1 = Some m" using ensure_ok_model[OF e] by blast
    show ?thesis
    proof (cases "decodeImage w buf")
      case (Inl err)
      have "handler w req s = (failure_response, s1\<lparr>events := events s1 @ [EvDecodeImage]\<rparr>)"
        by (simp add: handler_def Some try_decode_throws[OF e Inl])
      then show ?thesis using decode_throws Some e Inl by blast
    next
      case dec: (Inr img)
      show ?thesis
      proof (cases "resizeBilinear img [224, 224]")
        case (Inl err)
        have "handler w req s =
          (failure_response,
           s1\<lparr>live := live s1 @ [next_tensor s1], next_tensor := Suc (next_tensor s1),
              events := events s1 @ [EvDecodeImage, EvResizeBilinear]\<rparr>)"
          by (simp add: handler_def Some try_resize_throws[OF e dec Inl])
        then show ?thesis using resize_throws Some e dec Inl by blast
      next
        case res: (Inr r)
        show ?thesis
        proof (cases "predict m (expandDims (tensor_div r 255) 0)")
          case (Inl err)
          show ?thesis
            by (rule predict_throws[OF Some e m dec res Inl])
              (simp add: handler_def Some try_predict_throws[OF e m dec res Inl])
        next
          case out: (Inr out)
          show ?thesis
          proof (cases "firestore_set w")
            case wr: (Some err)
            show ?thesis
              by (rule write_fails[OF Some e m dec res out wr])
                (simp add: handler_def Some try_write_fails[OF e m dec res out wr])
          next
            case wr: None
            note eq = try_success[OF e m dec res out wr]
            show ?thesis
              by (rule success[OF Some e m dec res out wr])
                (simp_all add: handler_def Some eq m)
          qed
        qed
      qed
    qed
  qed
qed

lemma new_events_append: "events s' = events s @ A \<Longrightarrow> new_events s s' = A"
  by (simp add: new_events_def)

lemma takeWhile_load_prefix:
  assumes "set A \<subseteq> {EvExists, EvLoadGraphModel}" "e \<noteq> EvExists" "e \<noteq> EvLoadGraphModel"
  shows "takeWhile (\<lambda>x. x \<noteq> e) (A @ B) = A @ takeWhile (\<lambda>x. x \<noteq> e) B"
  using assms by (intro takeWhile_append2) auto

lemma no_write_in_load:
  assumes "set A \<subseteq> {EvExists, EvLoadGraphModel}"
  shows "filter is_write A = []"
  using assms by (induction A) auto

lemma handler_trace:
  obtains
    (no_file) "req_file req = None" "handler w req s = (no_image_response, s)"
  | (failed) A B where "set A \<subseteq> {EvExists, EvLoadGraphModel}"
      "new_events s (snd (handler w req s)) = A @ B"
      "B = [] \<or> B = [EvDecodeImage] \<or> B = [EvDecodeImage, EvResizeBilinear] \<or>
       B = [EvDecodeImage, EvResizeBilinear, EvDiv, EvExpandDims, EvPredict] \<or>
       B = [EvDecodeImage, EvResizeBilinear, EvDiv, EvExpandDims, EvPredict, EvDataSync,
            EvUuid, EvNow, EvFirestoreSet (uuidv4 w)] \<and> firestore_set w \<noteq> None"
      "fst (handler w req s) = failure_response"
      "predictions (snd (handler w req s)) = predictions s"
  | (success) A n where "set A \<subseteq> {EvExists, EvLoadGraphModel}"
      "new_events s (snd (handler w req s)) =
         A @ [EvDecodeImage, EvResizeBilinear, EvDiv, EvExpandDims, EvPredict, EvDataSync,
           EvUuid, EvNow, EvFirestoreSet (uuidv4 w), EvDispose n, EvDispose (n + 1),
           EvDispose (n + 3), EvDispose (n + 4)]"
      "status_code (fst (handler w req s)) = 200" "firestore_set w = None"
      "predictions (snd (handler w req s)) =
         (predictions s)(uuidv4 w \<mapsto> the (data (fst (handler w req s))))"
proof (cases rule: handler_cases[of req w s])
  case no_file
  then show ?thesis using that(1) by blast
next
  case (no_model buf e s1)
  from ensure_frame[OF no_model(2)] obtain A where
    A: "events s1 = events s @ A" "set A \<subseteq> {EvExists, EvLoadGraphModel}"
      "predictions s1 = predictions s"
    by blast
  have "new_events s (snd (handler w req s)) = A @ []"
    by (rule new_events_append) (simp add: no_model(3) A)
  then show ?thesis using A no_model(3) by (intro that(2)[of A "[]"]) simp_all
next
  case (decode_throws buf s1 e)
  from ensure_frame[OF decode_throws(2)] obtain A where
    A: "events s1 = events s @ A" "set A \<subseteq> {EvExists, EvLoadGraphModel}"
      "predictions s1 = predictions s"
    by blast
  have "new_events s (snd (handler w req s)) = A @ [EvDecodeImage]"
    by (rule new_events_append) (simp add: decode_throws(4) A)
  then show ?thesis using A decode_throws(4)
    by (intro that(2)[of A "[EvDecodeImage]"]) simp_all
next
  case (resize_throws buf s1 img e)
  from ensure_frame[OF resize_throws(2)] obtain A where
    A: "events s1 = events s @ A" "set A \<subseteq> {EvExists, EvLoadGraphModel}"
      "predictions s1 = predictions s"
    by blast
  have "new_events s (snd (handler w req s)) = A @ [EvDecodeImage, EvResizeBilinear]"
    by (rule new_events_append) (simp add: resize_throws(5) A)
  then show ?thesis using A resize_throws(5)
    by (intro that(2)[of A "[EvDecodeImage, EvResizeBilinear]"]) simp_all
next
  case (predict_throws buf s1 m img r e)
  from ensure_frame[OF predict_throws(2)] obtain A where
    A: "events s1 = events s @ A" "set A \<subseteq> {EvExists, EvLoadGraphModel}"
      "predictions s1 = predictions s"
    by blast
  have "new_events s (snd (handler w req s)) =
      A @ [EvDecodeImage, EvResizeBilinear, EvDiv, EvExpandDims, EvPredict]"
    by (rule new_events_append) (simp add: predict_throws(7) A)
  then show ?thesis using A predict_throws(7)
    by (intro that(2)[of A "[EvDecodeImage, EvResizeBilinear, EvDiv, EvExpandDims, EvPredict]"])
      simp_all
next
  case (write_fails buf s1 m img r out e)
  from ensure_frame[OF write_fails(2)] obtain A where
    A: "events s1 = events s @ A" "set A \<subseteq> {EvExists, EvLoadGraphModel}"
      "predictions s1 = predictions s"
    by blast
  have "new_events s (snd (handler w req s)) =
      A @ [EvDecodeImage, EvResizeBilinear, EvDiv, EvExpandDims, EvPredict, EvDataSync, EvUuid,
        EvNow, EvFirestoreSet (uuidv4 w)]"
    by (rule new_events_append) (simp add: write_fails(8) A)
  then show ?thesis using A write_fails(7,8)
    by (intro that(2)[of A "[EvDecodeImage, EvResizeBilinear, EvDiv, EvExpandDims, EvPredict,
        EvDataSync, EvUuid, EvNow, EvFirestoreSet (uuidv4 w)]"]) simp_all
next
  case (success buf s1 m img r out)
  from ensure_frame[OF success(2)] obtain A where
    A: "events s1 = events s @ A" "set A \<subseteq> {EvExists, EvLoadGraphModel}"
      "predictions s1 = predictions s"
    by blast
  have "new_events s (snd (handler w req s)) =
      A @ [EvDecodeImage, EvResizeBilinear, EvDiv, EvExpandDims, EvPredict, EvDataSync, EvUuid,
        EvNow, EvFirestoreSet (uuidv4 w), EvDispose (next_tensor s1),
        EvDispose (next_tensor s1 + 1), EvDispose (next_tensor s1 + 3),
        EvDispose (next_tensor s1 + 4)]"
    by (rule new_events_append) (simp add: success(11) A)
  then show ?thesis using A success(7,8,9)
    by (intro that(3)[of A "next_tensor s1"]) simp_all
qed

lemmas handler_defs = handler_def predict_try_def ensure_model_def loadModel_def model_predict_def
  firestore_write_def prim_defs

lemma resize_white_pixel:
  "resizeBilinear white_pixel [224, 224] =
     Inr \<lparr>shape = [224, 224, 3], vals = resize4 1 1 1 3 [255, 255, 255] 224 224\<rparr>"
  by (simp add: white_pixel_def resizeBilinear.simps)

lemma success_run_events:
  "events (snd (handler world0 request0 server0)) =
     [EvExists, EvLoadGraphModel, EvDecodeImage, EvResizeBilinear, EvDiv, EvExpandDims,
      EvPredict, EvDataSync, EvUuid, EvNow, EvFirestoreSet ''id-1'', EvDispose 0, EvDispose 1,
      EvDispose 3, EvDispose 4]"
  by (simp add: handler_defs world0_def model0_def server0_def request0_def resize_white_pixel)

lemma success_run_status: "status_code (fst (handler world0 request0 server0)) = 200"
  by (simp add: handler_defs world0_def model0_def server0_def request0_def resize_white_pixel)

lemma success_run_live: "live (snd (handler world0 request0 server0)) = [2]"
  by (simp add: handler_defs world0_def model0_def server0_def request0_def resize_white_pixel)

text \<open>
  The two end-to-end scenarios of the specification: the model answers 0.8 and the record
  says \<open>Cancer\<close>; it answers 0.3 and the record says \<open>Non-cancer\<close>.
\<close>

lemma scenario_cancer:
  "data (fst (handler world0 request0 server0)) =
     Some \<lparr>doc_id = ''id-1'', result = ''Cancer'', suggestion = ''Segera periksa ke dokter!'',
           createdAt = ''2024-01-01T00:00:00.000Z''\<rparr>"
  by (simp add: handler_defs world0_def model0_def server0_def request0_def resize_white_pixel
      predictionValue_def first_times100_def result_label_def suggestion_for_def
      floor_numeral_div)

lemma scenario_non_cancer:
  "data (fst (handler
      (world0\<lparr>loadGraphModel :=
         Inr \<lparr>model_id = 1, predict = (\<lambda>t. Inr \<lparr>shape = [1, 1], vals = [Num (3 / 10)]\<rparr>)\<rparr>\<rparr>)
      request0 server0)) =
     Some \<lparr>doc_id = ''id-1'', result = ''Non-cancer'',
           suggestion = ''Penyakit kanker tidak terdeteksi.'',
           createdAt = ''2024-01-01T00:00:00.000Z''\<rparr>"
  by (simp add: handler_defs world0_def server0_def request0_def resize_white_pixel
      predictionValue_def first_times100_def result_label_def suggestion_for_def
      floor_numeral_div)

lemma bad_image_status:
  "status_code (fst (handler (world0\<lparr>decodeImage := \<lambda>b. Inl DecodeImageError\<rparr>)
     request0 server0)) = 400"
  by (simp add: handler_defs world0_def model0_def server0_def request0_def failure_response_def)

text \<open>
  Claim C1 asks that every tensor allocated during an invocation is released before it
  returns, on every exit path. The handler disposes its tensors only after a successful
  write: when the Firestore write fails, the run is answered with the failure response
  and its five tensors stay allocated.
\<close>

theorem tensors_leak_when_write_fails:
  "fst (handler (world0\<lparr>firestore_set := Some FirestoreError\<rparr>) request0 server0) =
     failure_response \<and>
   live server0 = [] \<and>
   live (snd (handler (world0\<lparr>firestore_set := Some FirestoreError\<rparr>) request0 server0)) =
     [0, 1, 2, 3, 4]"
  by (simp add: handler_defs world0_def model0_def server0_def request0_def resize_white_pixel)

text \<open>
  Claim C10. A request without an uploaded file is answered at once with status 400 and
  the message "No image uploaded"; the state of the process is unchanged, and no call
  to the bucket, the TensorFlow runtime, the model or Firestore is made.
\<close>

theorem no_file_no_work:
  "handler w \<lparr>req_file = None\<rparr> s = (no_image_response, s) \<and>
   status_code no_image_response = 400 \<and> status no_image_response = ''fail'' \<and>
   message no_image_response = ''No image uploaded'' \<and>
   new_events s (snd (handler w \<lparr>req_file = None\<rparr> s)) = []"
  by (simp add: handler_def no_image_response_def new_events_def)

lemma loadModel_keeps_slot: "cancerModel (snd (loadModel w s)) = cancerModel s"
  by (simp add: loadModel_def prim_defs split: sum.splits)

lemma ensure_after_failed_load:
  assumes "cancerModel s = None" "fst (loadModel w s) = Inl e"
  shows "ensure_model w s = (Inl e, snd (loadModel w s))"
  using assms by (cases "loadModel w s") (simp add: ensure_model_def bnd_def)

lemma failed_load_result:
  assumes "cancerModel s = None" "req_file req = Some buf" "fst (loadModel w s) = Inl e"
  shows "handler w req s = (failure_response, snd (loadModel w s))"
  by (simp add: handler_def assms(2) try_no_model[OF ensure_after_failed_load[OF assms(1,3)]])

lemma load_on_retry:
  assumes "cancerModel s = None" "req_file req = Some buf"
    "file_exists w = Inr True" "loadGraphModel w = Inr m"
  shows "cancerModel (snd (handler w req s)) = Some m \<and>
    EvLoadGraphModel \<in> set (new_events s (snd (handler w req s)))"
proof -
  note ens = ensure_loaded[OF assms(1,3,4)]
  define s1 where "s1 = s\<lparr>cancerModel := Some m, events := events s @ [EvExists, EvLoadGraphModel]\<rparr>"
  have e: "ensure_model w s = (Inr (), s1)" using ens by (simp add: s1_def)
  have m: "cancerModel s1 = Some m" and ev: "events s1 = events s @ [EvExists, EvLoadGraphModel]"
    by (simp_all add: s1_def)
  show ?thesis
  proof (cases rule: handler_cases[of req w s])
    case no_file
    then show ?thesis using assms(2) by simp
  next
    case (no_model buf e s1)
    then show ?thesis using e by simp
  qed (use e m ev in \<open>auto simp: new_events_def\<close>)
qed

lemma success_after_load:
  assumes "cancerModel s = None" "req_file req = Some buf"
    "file_exists w = Inr True" "loadGraphModel w = Inr m"
    "decodeImage w buf = Inr img" "resizeBilinear img [224, 224] = Inr r"
    "predict m (expandDims (tensor_div r 255) 0) = Inr out" "firestore_set w = None"
  shows "status_code (fst (handler w req s)) = 200"
proof -
  define s1 where "s1 = s\<lparr>cancerModel := Some m, events := events s @ [EvExists, EvLoadGraphModel]\<rparr>"
  have e: "ensure_model w s = (Inr (), s1)"
    using ensure_loaded[OF assms(1,3,4)] by (simp add: s1_def)
  have m: "cancerModel s1 = Some m" by (simp add: s1_def)
  show ?thesis
    by (simp add: handler_def assms(2) try_success[OF e m assms(5-8)])
qed

text \<open>
  Claim C4. When the model load fails on an empty cache slot, the request fails and the
  slot is still empty. A later request then loads again: once the artifact exists and
  loads, the slot holds the model, and when the remaining stages succeed too the request
  succeeds.
\<close>

theorem failed_load_leaves_slot_empty:
  assumes "cancerModel s = None" "req_file req = Some buf" "fst (loadModel w s) = Inl e"
  shows "cancerModel (snd (handler w req s)) = None \<and>
    fst (handler w req s) = failure_response \<and>
    (req_file req' = Some buf' \<and> file_exists w' = Inr True \<and> loadGraphModel w' = Inr m \<longrightarrow>
       cancerModel (snd (handler w' req' (snd (handler w req s)))) = Some m \<and>
       EvLoadGraphModel \<in> set (new_events (snd (handler w req s))
         (snd (handler w' req' (snd (handler w req s)))))) \<and>
    (req_file req' = Some buf' \<and> file_exists w' = Inr True \<and> loadGraphModel w' = Inr m \<and>
     decodeImage w' buf' = Inr img \<and> resizeBilinear img [224, 224] = Inr r \<and>
     predict m (expandDims (tensor_div r 255) 0) = Inr out \<and> firestore_set w' = None \<longrightarrow>
       status_code (fst (handler w' req' (snd (handler w req s)))) = 200)"
proof -
  have h: "handler w req s = (failure_response, snd (loadModel w s))"
    by (rule failed_load_result[OF assms])
  have empty: "cancerModel (snd (handler w req s)) = None"
    by (simp add: h loadModel_keeps_slot assms(1))
  show ?thesis
    using empty h load_on_retry[OF empty, of req' buf' w' m]
      success_after_load[OF empty, of req' buf' w' m img r out]
    by simp
qed

theorem failed_load_leaves_slot_empty_witness:
  "cancerModel server0 = None \<and> req_file request0 = Some png_bytes \<and>
   fst (loadModel (world0\<lparr>file_exists := Inr False\<rparr>) server0) = Inl ModelFileNotFound \<and>
   file_exists world0 = Inr True \<and> loadGraphModel world0 = Inr model0 \<and>
   decodeImage world0 png_bytes = Inr white_pixel \<and>
   resizeBilinear white_pixel [224, 224] =
     Inr \<lparr>shape = [224, 224, 3], vals = resize4 1 1 1 3 [255, 255, 255] 224 224\<rparr> \<and>
   predict model0 (expandDims (tensor_div
     \<lparr>shape = [224, 224, 3], vals = resize4 1 1 1 3 [255, 255, 255] 224 224\<rparr> 255) 0) =
     Inr \<lparr>shape = [1, 1], vals = [Num (4 / 5)]\<rparr> \<and>
   firestore_set world0 = None \<and>
   cancerModel (snd (handler (world0\<lparr>file_exists := Inr False\<rparr>) request0 server0)) = None \<and>
   fst (handler (world0\<lparr>file_exists := Inr False\<rparr>) request0 server0) = failure_response \<and>
   cancerModel (snd (handler world0 request0
     (snd (handler (world0\<lparr>file_exists := Inr False\<rparr>) request0 server0)))) = Some model0 \<and>
   status_code (fst (handler world0 request0
     (snd (handler (world0\<lparr>file_exists := Inr False\<rparr>) request0 server0)))) = 200"
proof -
  have 1: "cancerModel server0 = None" by (simp add: server0_def)
  have 2: "req_file request0 = Some png_bytes" by (simp add: request0_def)
  have 3: "fst (loadModel (world0\<lparr>file_exists := Inr False\<rparr>) server0) = Inl ModelFileNotFound"
    by (simp add: loadModel_def prim_defs world0_def)
  have 4: "file_exists world0 = Inr True" "loadGraphModel world0 = Inr model0"
    "decodeImage world0 png_bytes = Inr white_pixel" "firestore_set world0 = None"
    by (simp_all add: world0_def)
  have 5: "predict model0 (expandDims (tensor_div
     \<lparr>shape = [224, 224, 3], vals = resize4 1 1 1 3 [255, 255, 255] 224 224\<rparr> 255) 0) =
     Inr \<lparr>shape = [1, 1], vals = [Num (4 / 5)]\<rparr>"
    by (simp add: model0_def)
  show ?thesis
    using 1 2 3 4 5 resize_white_pixel
      failed_load_leaves_slot_empty[OF 1 2 3, of request0 png_bytes world0 model0 white_pixel
        "\<lparr>shape = [224, 224, 3], vals = resize4 1 1 1 3 [255, 255, 255] 224 224\<rparr>"
        "\<lparr>shape = [1, 1], vals = [Num (4 / 5)]\<rparr>"]
    by simp
qed

text \<open>
  Claim C5. Within a request, the identifier and the timestamp are generated only after
  the inference has returned its output (the interpretation is computed from it without
  any further call); and a request that is not answered with status 200 leaves the
  \<open>predictions\<close> collection as it was and returns no record.
\<close>

theorem record_only_after_inference:
  "(EvUuid \<in> set (new_events s (snd (handler w req s))) \<longrightarrow>
      EvDataSync \<in> set (takeWhile (\<lambda>e. e \<noteq> EvUuid) (new_events s (snd (handler w req s))))) \<and>
   (EvNow \<in> set (new_events s (snd (handler w req s))) \<longrightarrow>
      EvDataSync \<in> set (takeWhile (\<lambda>e. e \<noteq> EvNow) (new_events s (snd (handler w req s))))) \<and>
   (status_code (fst (handler w req s)) \<noteq> 200 \<longrightarrow>
      predictions (snd (handler w req s)) = predictions s \<and> data (fst (handler w req s)) = None)"
proof (cases rule: handler_trace[of req w s])
  case no_file
  then show ?thesis by (simp add: new_events_def no_image_response_def)
next
  case (failed A B)
  have "EvUuid \<notin> set A" "EvNow \<notin> set A" using failed(1) by auto
  then show ?thesis using failed
    by (auto simp: failure_response_def takeWhile_load_prefix)
next
  case (success A n)
  then show ?thesis by (simp add: takeWhile_load_prefix)
qed

theorem record_only_after_inference_witness:
  "EvUuid \<in> set (new_events server0 (snd (handler world0 request0 server0))) \<and>
   EvNow \<in> set (new_events server0 (snd (handler world0 request0 server0))) \<and>
   EvDataSync \<in> set (takeWhile (\<lambda>e. e \<noteq> EvUuid)
     (new_events server0 (snd (handler world0 request0 server0)))) \<and>
   EvDataSync \<in> set (takeWhile (\<lambda>e. e \<noteq> EvNow)
     (new_events server0 (snd (handler world0 request0 server0)))) \<and>
   status_code (fst (handler (world0\<lparr>decodeImage := \<lambda>b. Inl DecodeImageError\<rparr>)
     request0 server0)) \<noteq> 200 \<and>
   predictions (snd (handler (world0\<lparr>decodeImage := \<lambda>b. Inl DecodeImageError\<rparr>)
     request0 server0)) = predictions server0 \<and>
   data (fst (handler (world0\<lparr>decodeImage := \<lambda>b. Inl DecodeImageError\<rparr>)
     request0 server0)) = None"
proof -
  have ev: "new_events server0 (snd (handler world0 request0 server0)) =
     [EvExists, EvLoadGraphModel, EvDecodeImage, EvResizeBilinear, EvDiv, EvExpandDims,
      EvPredict, EvDataSync, EvUuid, EvNow, EvFirestoreSet ''id-1'', EvDispose 0, EvDispose 1,
      EvDispose 3, EvDispose 4]"
    by (simp add: new_events_def success_run_events) (simp add: server0_def)
  have a: "EvUuid \<in> set (new_events server0 (snd (handler world0 request0 server0)))"
    and b: "EvNow \<in> set (new_events server0 (snd (handler world0 request0 server0)))"
    by (simp_all add: ev)
  have c: "status_code (fst (handler (world0\<lparr>decodeImage := \<lambda>b. Inl DecodeImageError\<rparr>)
     request0 server0)) \<noteq> 200"
    by (simp add: bad_image_status)
  show ?thesis
    using a b c record_only_after_inference[of server0 world0 request0]
      record_only_after_inference[of server0
        "world0\<lparr>decodeImage := \<lambda>b. Inl DecodeImageError\<rparr>" request0]
    by blast
qed

text \<open>
  Claim C6. A request answered with status 200, and more generally every request whose
  inference returned, attempts the write to \<open>predictions\<close> exactly once; when the write
  fails the request is answered with the failure response, status 400 and no record.
\<close>

theorem write_once_and_failure_surfaced:
  "(status_code (fst (handler w req s)) = 200 \<longrightarrow>
      length (filter is_write (new_events s (snd (handler w req s)))) = 1) \<and>
   (EvDataSync \<in> set (new_events s (snd (handler w req s))) \<longrightarrow>
      length (filter is_write (new_events s (snd (handler w req s)))) = 1) \<and>
   (firestore_set w \<noteq> None \<longrightarrow>
      status_code (fst (handler w req s)) = 400 \<and> data (fst (handler w req s)) = None) \<and>
   (firestore_set w \<noteq> None \<and> filter is_write (new_events s (snd (handler w req s))) \<noteq> [] \<longrightarrow>
      fst (handler w req s) = failure_response)"
proof (cases rule: handler_trace[of req w s])
  case no_file
  then show ?thesis by (simp add: new_events_def no_image_response_def)
next
  case (failed A B)
  have "EvDataSync \<notin> set A" using failed(1) by auto
  then show ?thesis using failed no_write_in_load[OF failed(1)]
    by (auto simp: failure_response_def)
next
  case (success A n)
  then show ?thesis using no_write_in_load[OF success(1)] by simp
qed

theorem write_once_and_failure_surfaced_witness:
  "status_code (fst (handler world0 request0 server0)) = 200 \<and>
   EvDataSync \<in> set (new_events server0 (snd (handler world0 request0 server0))) \<and>
   length (filter is_write (new_events server0 (snd (handler world0 request0 server0)))) = 1 \<and>
   firestore_set (world0\<lparr>firestore_set := Some FirestoreError\<rparr>) \<noteq> None \<and>
   filter is_write (new_events server0
     (snd (handler (world0\<lparr>firestore_set := Some FirestoreError\<rparr>) request0 server0))) \<noteq> [] \<and>
   status_code (fst (handler (world0\<lparr>firestore_set := Some FirestoreError\<rparr>)
     request0 server0)) = 400 \<and>
   fst (handler (world0\<lparr>firestore_set := Some FirestoreError\<rparr>) request0 server0) =
     failure_response"
proof -
  have ev: "EvDataSync \<in> set (new_events server0 (snd (handler world0 request0 server0)))"
    by (simp add: new_events_def success_run_events) (simp add: server0_def)
  have f: "firestore_set (world0\<lparr>firestore_set := Some FirestoreError\<rparr>) \<noteq> None" by simp
  have wr: "filter is_write (new_events server0
     (snd (handler (world0\<lparr>firestore_set := Some FirestoreError\<rparr>) request0 server0))) \<noteq> []"
    by (simp add: new_events_def handler_defs world0_def model0_def server0_def request0_def
        resize_white_pixel)
  show ?thesis
    using success_run_status ev f wr
      write_once_and_failure_surfaced[of world0 request0 server0]
      write_once_and_failure_surfaced[of
        "world0\<lparr>firestore_set := Some FirestoreError\<rparr>" request0 server0]
    by blast
qed

section \<open>Proofs: concurrent callers\<close>

















end
